theory Spec2Isabelle
  imports Main "HOL-Library.Word" "HOL-Library.Multiset"
begin

section \<open>JavaScript values as the feed page sees them\<close>

text \<open>
  A JavaScript string is a sequence of UTF-16 code units. String literals of the
  source are ASCII and are written through \<open>str\<close>.
\<close>

type_synonym jstring = "16 word list"

definition str :: "string \<Rightarrow> jstring" where
  "str s = map (\<lambda>c. of_nat (of_char c)) s"

text \<open>
  The values an article field, a response field or a handler argument can hold: what
  JSON decoding yields, plus \<open>undefined\<close> for a property that is missing. Objects and
  arrays are kept by their identity only, since the handlers never look inside one.
\<close>

datatype jsval =
    JUndefined
  | JNull
  | JBool bool
  | JNum int
  | JStr jstring
  | JObj nat

text \<open>ToBoolean: the falsy values are undefined, null, false, 0 and the empty string.\<close>

fun truthy :: "jsval \<Rightarrow> bool" where
  "truthy JUndefined = False"
| "truthy JNull = False"
| "truthy (JBool b) = b"
| "truthy (JNum n) = (n \<noteq> 0)"
| "truthy (JStr s) = (s \<noteq> [])"
| "truthy (JObj r) = True"

text \<open>The operator \<open>a || b\<close>: the left operand when it is truthy, else the right one.\<close>

definition js_or :: "jsval \<Rightarrow> jsval \<Rightarrow> jsval" where
  "js_or a b = (if truthy a then a else b)"

text \<open>
  \<open>String.prototype.trim\<close> removes ECMAScript WhiteSpace and LineTerminator code
  units from both ends.
\<close>

definition is_white_space :: "16 word \<Rightarrow> bool" where
  "is_white_space c =
     (c = 0x0009 \<or> c = 0x000A \<or> c = 0x000B \<or> c = 0x000C \<or> c = 0x000D \<or>
      c = 0x0020 \<or> c = 0x00A0 \<or> c = 0x1680 \<or>
      (0x2000 \<le> c \<and> c \<le> 0x200A) \<or>
      c = 0x2028 \<or> c = 0x2029 \<or> c = 0x202F \<or> c = 0x205F \<or>
      c = 0x3000 \<or> c = 0xFEFF)"

definition trim :: "jstring \<Rightarrow> jstring" where
  "trim s = rev (dropWhile is_white_space (rev (dropWhile is_white_space s)))"

text \<open>A plain object literal: its properties in insertion order.\<close>

type_synonym jsobject = "(string \<times> jsval) list"

definition get_prop :: "jsobject \<Rightarrow> string \<Rightarrow> jsval" where
  "get_prop obj k = (case map_of obj k of None \<Rightarrow> JUndefined | Some v \<Rightarrow> v)"

section \<open>Articles, requests and the state of FeedPage\<close>

text \<open>
  An article object as the feed endpoint returns it. The handlers read \<open>id\<close>
  (the field \<open>article_id\<close> here, as \<open>id\<close> is the identity function of HOL),
  \<open>content\<close>, \<open>summary\<close> and write \<open>feedback\<close>; every other property (title,
  source_name, published_date, is_trending, ...) is carried along in \<open>other\<close>.
\<close>

record article =
  article_id :: jsval
  content :: jsval
  summary :: jsval
  feedback :: jsval
  other :: jsobject

text \<open>The three endpoints the handlers post to.\<close>

datatype endpoint =
    ArticlesSummarize
  | ArticlesAsk
  | ArticlesFeedback jsval

type_synonym request = "endpoint \<times> jsobject"

text \<open>
  What can be thrown inside a handler: the rejection of an axios promise (network
  error, timeout, non-2xx status), or the TypeError of reading a property of
  \<open>null\<close>/\<open>undefined\<close>.
\<close>

datatype exn = AxiosError jstring | TypeError

text \<open>
  The outcome of \<open>await axios.post(...)\<close>: rejected, or resolved with
  \<open>response.data\<close>, which is \<open>None\<close> when the body is null or missing and an
  object otherwise (a string or a number as body has none of the properties read
  here, like the empty object).
\<close>

datatype response = Rejected exn | Resolved "jsobject option"

type_synonym backend = "request \<Rightarrow> response"

text \<open>
  The React state of FeedPage (one field per \<open>useState\<close>), together with the part of
  the world the handlers touch: the POST requests issued so far, the lines written by
  \<open>console.error\<close>, the browser's localStorage, and whether the submit event had its
  default prevented.
\<close>

record feed_state =
  articles :: "article list"
  activeArticle :: "article option"
  explanation :: jsval
  explanationLoading :: bool
  query :: jstring
  queryAnswer :: jsval
  queryLoading :: bool
  requests :: "request list"
  console :: "(jstring \<times> exn) list"
  localStorage :: "string \<Rightarrow> jstring option"
  defaultPrevented :: bool

text \<open>\<open>localStorage.getItem(k)\<close>: the stored string, or null.\<close>

definition getItem :: "feed_state \<Rightarrow> string \<Rightarrow> jsval" where
  "getItem s k = (case localStorage s k of None \<Rightarrow> JNull | Some v \<Rightarrow> JStr v)"

section \<open>Control flow of an async handler\<close>

text \<open>
  How a block of statements completes: normally, by \<open>return\<close>, or by a thrown
  exception. The state reached so far is kept in each case. For the promise an async
  handler returns, \<open>Normal\<close> and \<open>Return\<close> mean it is fulfilled and \<open>Throw\<close> that it is
  rejected with the exception.
\<close>

datatype completion = Normal feed_state | Return feed_state | Throw exn feed_state

text \<open>
  \<open>try { body } catch (err) { handler } finally { fin }\<close>: the handler runs when
  the body throws; the finally block runs in every case, and the completion of the
  body (or handler) stands unless the finally block itself completes abruptly.
\<close>

definition try_catch_finally ::
  "(feed_state \<Rightarrow> completion) \<Rightarrow> (exn \<Rightarrow> feed_state \<Rightarrow> completion) \<Rightarrow>
   (feed_state \<Rightarrow> completion) \<Rightarrow> feed_state \<Rightarrow> completion" where
  "try_catch_finally body handler fin s =
     (let c = (case body s of Throw e s1 \<Rightarrow> handler e s1 | c0 \<Rightarrow> c0) in
      case c of
        Normal s2 \<Rightarrow> fin s2
      | Return s2 \<Rightarrow> (case fin s2 of Normal s3 \<Rightarrow> Return s3 | c' \<Rightarrow> c')
      | Throw e s2 \<Rightarrow> (case fin s2 of Normal s3 \<Rightarrow> Throw e s3 | c' \<Rightarrow> c'))"

text \<open>
  \<open>await axios.post(url, body)\<close>: the request is recorded as issued, and the backend
  decides the response.
\<close>

definition axios_post :: "backend \<Rightarrow> request \<Rightarrow> feed_state \<Rightarrow> response \<times> feed_state" where
  "axios_post be req s = (be req, s\<lparr>requests := requests s @ [req]\<rparr>)"

section \<open>handleExplain\<close>

text \<open>The expression \<open>activeArticle.content || activeArticle.summary\<close>.\<close>

definition contentToExplain :: "article \<Rightarrow> jsval" where
  "contentToExplain a = js_or (content a) (summary a)"

text \<open>The arguments of the POST to \<open>/articles/summarize\<close>.\<close>

definition summarize_request :: "feed_state \<Rightarrow> article \<Rightarrow> request" where
  "summarize_request s a =
     (ArticlesSummarize,
      [(''content'', contentToExplain a),
       (''knowledge_level'',
        js_or (getItem s ''knowledgeLevel'') (JStr (str ''Intermediate'')))])"

definition handleExplain_try :: "backend \<Rightarrow> article \<Rightarrow> feed_state \<Rightarrow> completion" where
  "handleExplain_try be a s =
     (if \<not> truthy (contentToExplain a) then
        Return (s\<lparr>explanation := JStr (str ''No content available to explain.'')\<rparr>)
      else
        (case axios_post be (summarize_request s a) s of
           (Rejected e, s1) \<Rightarrow> Throw e s1
         | (Resolved None, s1) \<Rightarrow> Throw TypeError s1
         | (Resolved (Some d), s1) \<Rightarrow> Normal (s1\<lparr>explanation := get_prop d ''summary''\<rparr>)))"

definition handleExplain_catch :: "exn \<Rightarrow> feed_state \<Rightarrow> completion" where
  "handleExplain_catch err s =
     Normal (s\<lparr>console := console s @ [(str ''Error getting explanation:'', err)],
               explanation := JStr (str ''Failed to generate explanation. Please try again.'')\<rparr>)"

definition handleExplain_finally :: "feed_state \<Rightarrow> completion" where
  "handleExplain_finally s = Normal (s\<lparr>explanationLoading := False\<rparr>)"

definition handleExplain :: "backend \<Rightarrow> feed_state \<Rightarrow> completion" where
  "handleExplain be s =
     (case activeArticle s of
        None \<Rightarrow> Return s
      | Some a \<Rightarrow>
          try_catch_finally (handleExplain_try be a) handleExplain_catch handleExplain_finally
            (s\<lparr>explanationLoading := True\<rparr>))"

text \<open>The state in which a handler's promise settles.\<close>

fun final_state :: "completion \<Rightarrow> feed_state" where
  "final_state (Normal s) = s"
| "final_state (Return s) = s"
| "final_state (Throw e s) = s"

fun rejects :: "completion \<Rightarrow> bool" where
  "rejects (Throw e s) = True"
| "rejects c = False"


text \<open>
  The resolver in the words of the specification (section 4.2), to be compared with
  \<open>contentToExplain\<close> and \<open>handleExplain\<close>: prefer full content, fall back to the
  summary, and return ABSENT if neither is present. A field counts as present when it
  is truthy, which is the test \<open>||\<close> and \<open>!contentToExplain\<close> apply.
\<close>

datatype resolved = FULL jsval | SUMMARY jsval | ABSENT

definition resolve :: "article \<Rightarrow> resolved" where
  "resolve a =
     (if truthy (content a) then FULL (content a)
      else if truthy (summary a) then SUMMARY (summary a)
      else ABSENT)"

text \<open>The requests a call of \<open>handleExplain\<close> adds to those already issued.\<close>

definition explain_requests :: "backend \<Rightarrow> feed_state \<Rightarrow> request list" where
  "explain_requests be s =
     drop (length (requests s)) (requests (final_state (handleExplain be s)))"

section \<open>handleQuerySubmit\<close>

text \<open>
  The payload object: \<open>query\<close> always, then \<open>article_id\<close> or \<open>context\<close> by the
  \<open>if / else if / else if\<close> chain.
\<close>

definition ask_payload :: "jstring \<Rightarrow> article \<Rightarrow> jsobject" where
  "ask_payload q a =
     [(''query'', JStr q)] @
     (if truthy (article_id a) then [(''article_id'', article_id a)]
      else if truthy (content a) then [(''context'', content a)]
      else if truthy (summary a) then [(''context'', summary a)]
      else [])"

text \<open>The arguments of the POST to \<open>/articles/ask\<close>.\<close>

definition ask_request :: "feed_state \<Rightarrow> article \<Rightarrow> request" where
  "ask_request s a = (ArticlesAsk, ask_payload (query s) a)"

definition handleQuerySubmit_try :: "backend \<Rightarrow> article \<Rightarrow> feed_state \<Rightarrow> completion" where
  "handleQuerySubmit_try be a s =
     (case axios_post be (ask_request s a) s of
        (Rejected e, s1) \<Rightarrow> Throw e s1
      | (Resolved None, s1) \<Rightarrow> Throw TypeError s1
      | (Resolved (Some d), s1) \<Rightarrow> Normal (s1\<lparr>queryAnswer := get_prop d ''answer''\<rparr>))"

definition handleQuerySubmit_catch :: "exn \<Rightarrow> feed_state \<Rightarrow> completion" where
  "handleQuerySubmit_catch err s =
     Normal (s\<lparr>console := console s @ [(str ''Error getting answer:'', err)],
               queryAnswer := JStr (str ''Failed to get an answer. Please try again.'')\<rparr>)"

definition handleQuerySubmit_finally :: "feed_state \<Rightarrow> completion" where
  "handleQuerySubmit_finally s = Normal (s\<lparr>queryLoading := False\<rparr>)"

definition handleQuerySubmit :: "backend \<Rightarrow> feed_state \<Rightarrow> completion" where
  "handleQuerySubmit be s0 =
     (let s = s0\<lparr>defaultPrevented := True\<rparr> in
      if trim (query s) = [] then Return s
      else
        (case activeArticle s of
           None \<Rightarrow> Return s
         | Some a \<Rightarrow>
             try_catch_finally (handleQuerySubmit_try be a) handleQuerySubmit_catch
               handleQuerySubmit_finally (s\<lparr>queryLoading := True\<rparr>)))"

text \<open>The requests a call of \<open>handleQuerySubmit\<close> adds to those already issued.\<close>

definition query_requests :: "backend \<Rightarrow> feed_state \<Rightarrow> request list" where
  "query_requests be s =
     drop (length (requests s)) (requests (final_state (handleQuerySubmit be s)))"

section \<open>handleFeedback\<close>

text \<open>
  Strict equality \<open>===\<close>. On the values modelled here (no NaN, objects by identity)
  it is equality of the values.
\<close>

definition strict_eq :: "jsval \<Rightarrow> jsval \<Rightarrow> bool" where
  "strict_eq a b = (a = b)"

text \<open>\<open>try { body } catch (err) { handler }\<close>, without a finally block.\<close>

definition try_catch ::
  "(feed_state \<Rightarrow> completion) \<Rightarrow> (exn \<Rightarrow> feed_state \<Rightarrow> completion) \<Rightarrow>
   feed_state \<Rightarrow> completion" where
  "try_catch body handler s =
     (case body s of Throw e s1 \<Rightarrow> handler e s1 | c0 \<Rightarrow> c0)"

text \<open>The callback of \<open>articles.map\<close>: a copy with \<open>feedback\<close> replaced, or the article itself.\<close>

definition mark_feedback :: "jsval \<Rightarrow> jsval \<Rightarrow> article \<Rightarrow> article" where
  "mark_feedback articleId type a =
     (if strict_eq (article_id a) articleId then a\<lparr>feedback := type\<rparr> else a)"

text \<open>The arguments of the POST to \<open>/articles/:articleId/feedback\<close>.\<close>

definition feedback_request :: "jsval \<Rightarrow> jsval \<Rightarrow> request" where
  "feedback_request articleId type =
     (ArticlesFeedback articleId,
      [(''article_id'', articleId), (''feedback_type'', type)])"

text \<open>
  The handler is created by a render, and \<open>articles\<close> in its body is the constant of
  that render (\<open>captured\<close>), not the state at the time the POST settles. While the
  request is pending other handlers may change the state (\<open>inflight\<close>). After the
  \<open>await\<close>, \<open>setArticles\<close> replaces the live list by the updated copy of the captured
  one.
\<close>

definition handleFeedback_try ::
  "backend \<Rightarrow> article list \<Rightarrow> (feed_state \<Rightarrow> feed_state) \<Rightarrow> jsval \<Rightarrow> jsval \<Rightarrow>
   feed_state \<Rightarrow> completion" where
  "handleFeedback_try be captured inflight articleId type s =
     (case axios_post be (feedback_request articleId type) s of
        (Rejected e, s1) \<Rightarrow> Throw e (inflight s1)
      | (Resolved d, s1) \<Rightarrow>
          Normal ((inflight s1)\<lparr>articles := map (mark_feedback articleId type) captured\<rparr>))"

definition handleFeedback_catch :: "exn \<Rightarrow> feed_state \<Rightarrow> completion" where
  "handleFeedback_catch err s =
     Normal (s\<lparr>console := console s @ [(str ''Error providing feedback:'', err)]\<rparr>)"

definition handleFeedback ::
  "backend \<Rightarrow> article list \<Rightarrow> (feed_state \<Rightarrow> feed_state) \<Rightarrow> jsval \<Rightarrow> jsval \<Rightarrow>
   feed_state \<Rightarrow> completion" where
  "handleFeedback be captured inflight articleId type s =
     try_catch (handleFeedback_try be captured inflight articleId type) handleFeedback_catch s"

text \<open>
  The feedback entries an article list holds for an id: one per article object
  carrying that id, since each object has a single \<open>feedback\<close> property.
\<close>

definition feedback_entries :: "article list \<Rightarrow> jsval \<Rightarrow> jsval list" where
  "feedback_entries xs articleId =
     map feedback (filter (\<lambda>a. strict_eq (article_id a) articleId) xs)"

definition feedback_of :: "feed_state \<Rightarrow> jsval \<Rightarrow> jsval list" where
  "feedback_of s articleId = feedback_entries (articles s) articleId"

section \<open>Onboarding and the users table\<close>

text \<open>The \<open>useState\<close> cells of OnboardingPage and their initial values.\<close>

record onboarding_state =
  step :: nat
  interests :: "jsval list"
  knowledgeLevel :: jstring
  emailDigests :: bool
  emailFrequency :: jstring
  availableInterests :: "jsval list"
  loading :: bool
  error :: jstring

definition OnboardingPage_init :: onboarding_state where
  "OnboardingPage_init =
     \<lparr>step = 1, interests = [], knowledgeLevel = str ''Intermediate'',
      emailDigests = True, emailFrequency = str ''Weekly'',
      availableInterests = [], loading = True, error = []\<rparr>"

text \<open>
  Storing a string in a \<open>VARCHAR(n)\<close> column: a value of at most \<open>n\<close> characters is
  kept as it is; a longer one is cut to \<open>n\<close> characters when everything beyond is
  spaces, and is an error otherwise.
\<close>

datatype sql_error = StringDataRightTruncation

definition varchar :: "nat \<Rightarrow> string \<Rightarrow> sql_error + string" where
  "varchar n v =
     (if length v \<le> n then Inr v
      else if list_all (\<lambda>c. c = CHR '' '') (drop n v) then Inr (take n v)
      else Inl StringDataRightTruncation)"

text \<open>
  The column \<open>knowledge_level VARCHAR(50) DEFAULT 'Intermediate'\<close> of table
  \<open>users\<close>: the value a new row holds, or the error of the INSERT, given what the
  INSERT supplies for the column: nothing (the default applies), or a value, which
  may be NULL as the column is nullable.
\<close>

definition users_knowledge_level :: "string option option \<Rightarrow> sql_error + string option" where
  "users_knowledge_level supplied =
     (case (case supplied of None \<Rightarrow> Some ''Intermediate'' | Some v \<Rightarrow> v) of
        None \<Rightarrow> Inr None
      | Some v \<Rightarrow> (case varchar 50 v of Inl e \<Rightarrow> Inl e | Inr v' \<Rightarrow> Inr (Some v')))"

section \<open>The feed ranker\<close>

text \<open>
  Modelled from the spec: the Feed Ranker (\<open>rank\<close>) runs in the backend, whose code is
  not part of the sources at hand; the feed page only displays what
  \<open>/articles/feed\<close> returns. The definitions below follow section 4.1 of the
  specification. The numeric weights are left open there and are parameters here; an
  article without a published timestamp is ordered as the oldest.
\<close>

text \<open>Modelled from the spec: the data model of section 3 (user preference, article).\<close>

datatype feedback_type = Like | Dislike

datatype knowledge_level = Beginner | Intermediate | Expert

record user_preference =
  pref_user :: nat
  pref_interests :: "string list"
  pref_knowledge_level :: knowledge_level
  pref_feedback :: "nat \<Rightarrow> feedback_type option"

record stored_article =
  art_id :: nat
  art_title :: string
  art_source :: string
  art_categories :: "string list"
  art_content :: "string option"
  art_summary :: "string option"
  art_published :: "nat option"
  art_trending :: bool

record weights =
  trending_bonus :: int
  dislike_penalty :: int

text \<open>
  Modelled from the spec: the interest-overlap score is the size of the intersection of
  the article's categories and the user's interests (step 1; glossary).
\<close>

definition interest_overlap :: "user_preference \<Rightarrow> stored_article \<Rightarrow> nat" where
  "interest_overlap p a =
     length (filter (\<lambda>c. c \<in> set (pref_interests p)) (remdups (art_categories a)))"

text \<open>
  Modelled from the spec: the overlap, plus a fixed additive bonus for a trending
  article (step 2), less a penalty for an article the user disliked (step 3). The boost
  for liked articles' categories is an optional extension there and is left out.
\<close>

definition score :: "weights \<Rightarrow> user_preference \<Rightarrow> stored_article \<Rightarrow> int" where
  "score w p a =
     int (interest_overlap p a)
     + (if art_trending a then trending_bonus w else 0)
     - (if pref_feedback p (art_id a) = Some Dislike then dislike_penalty w else 0)"

text \<open>
  Modelled from the spec: ties are broken by published timestamp, newest first, then by
  identifier (step 4). The timestamp is optional; one that is missing counts as older
  than any that is present.
\<close>

definition published_key :: "stored_article \<Rightarrow> nat" where
  "published_key a = (case art_published a of None \<Rightarrow> 0 | Some t \<Rightarrow> Suc t)"

text \<open>
  Modelled from the spec: the order of the feed. Higher score first; on equal scores
  the newer article; on equal timestamps the smaller identifier.
\<close>

definition ranks_before ::
  "weights \<Rightarrow> user_preference \<Rightarrow> stored_article \<Rightarrow> stored_article \<Rightarrow> bool" where
  "ranks_before w p a b =
     (score w p b < score w p a \<or>
      (score w p a = score w p b \<and>
       (published_key b < published_key a \<or>
        (published_key a = published_key b \<and> art_id a \<le> art_id b))))"

text \<open>
  Modelled from the spec: \<open>rank\<close> produces the full ordered sequence (step 5), here by
  inserting each candidate at its place; the empty candidate list gives the empty
  sequence.
\<close>

fun place ::
  "weights \<Rightarrow> user_preference \<Rightarrow> stored_article \<Rightarrow> stored_article list \<Rightarrow>
   stored_article list" where
  "place w p a [] = [a]"
| "place w p a (b # bs) =
     (if ranks_before w p a b then a # b # bs else b # place w p a bs)"

text \<open>
  Modelled from the spec: \<open>rank(userPreferences, candidateArticles)\<close>, a pure function
  of its inputs (and of the weights, which the specification leaves to be chosen).
\<close>

definition rank :: "weights \<Rightarrow> user_preference \<Rightarrow> stored_article list \<Rightarrow> stored_article list" where
  "rank w p xs = foldr (place w p) xs []"

section \<open>Sample inputs\<close>

text \<open>Concrete articles, states and backends on which the theorems below are run.\<close>

definition sample_full :: article where
  "sample_full =
     \<lparr>article_id = JStr (str ''a1''), content = JStr (str ''body''),
      summary = JStr (str ''brief''), feedback = JStr (str ''like''), other = []\<rparr>"

definition sample_summary_only :: article where
  "sample_summary_only =
     \<lparr>article_id = JNull, content = JStr [],
      summary = JStr (str ''brief''), feedback = JUndefined, other = []\<rparr>"

definition sample_bare :: article where
  "sample_bare =
     \<lparr>article_id = JStr (str ''a3''), content = JNull,
      summary = JUndefined, feedback = JUndefined, other = []\<rparr>"

definition sample_state :: "article option \<Rightarrow> jstring \<Rightarrow> feed_state" where
  "sample_state act q =
     \<lparr>articles = [sample_full, sample_summary_only, sample_bare],
      activeArticle = act, explanation = JStr [], explanationLoading = False,
      query = q, queryAnswer = JStr [], queryLoading = False,
      requests = [], console = [], localStorage = (\<lambda>k. None),
      defaultPrevented = False\<rparr>"

definition backend_up :: backend where
  "backend_up req =
     Resolved (Some [(''summary'', JStr (str ''explained'')),
                     (''answer'', JStr (str ''answered''))])"

definition backend_down :: backend where
  "backend_down req = Rejected (AxiosError (str ''Network Error''))"

definition sample_user :: user_preference where
  "sample_user =
     \<lparr>pref_user = 1, pref_interests = [''nlp''], pref_knowledge_level = Intermediate,
      pref_feedback = (\<lambda>k. None)\<rparr>"

definition sample_article1 :: stored_article where
  "sample_article1 =
     \<lparr>art_id = 1, art_title = ''Article1'', art_source = ''source'',
      art_categories = [''nlp''], art_content = None, art_summary = Some ''brief'',
      art_published = Some 10, art_trending = False\<rparr>"

definition sample_article2 :: stored_article where
  "sample_article2 =
     \<lparr>art_id = 2, art_title = ''Article2'', art_source = ''source'',
      art_categories = [], art_content = None, art_summary = None,
      art_published = None, art_trending = True\<rparr>"

definition sample_weights :: weights where
  "sample_weights = \<lparr>trending_bonus = 2, dislike_penalty = 3\<rparr>"

section \<open>Helper lemmas\<close>

lemma trim_Nil_iff: "trim s = [] \<longleftrightarrow> (\<forall>c\<in>set s. is_white_space c)"
proof
  assume blank: "trim s = []"
  have "dropWhile is_white_space s = []"
  proof (rule ccontr)
    assume ne: "dropWhile is_white_space s \<noteq> []"
    then have "\<not> is_white_space (hd (dropWhile is_white_space s))"
      by (rule hd_dropWhile)
    moreover have "hd (dropWhile is_white_space s) \<in> set (dropWhile is_white_space s)"
      using ne by simp
    moreover have "\<forall>c\<in>set (dropWhile is_white_space s). is_white_space c"
      using blank by (simp add: trim_def)
    ultimately show False by blast
  qed
  then show "\<forall>c\<in>set s. is_white_space c"
    by simp
next
  assume "\<forall>c\<in>set s. is_white_space c"
  then have d: "dropWhile is_white_space s = []"
    by simp
  show "trim s = []"
    unfolding trim_def d by simp
qed

lemma handleExplain_unfold:
  assumes "activeArticle s = Some a"
  shows "handleExplain be s =
     (if \<not> truthy (contentToExplain a) then
        Return (s\<lparr>explanation := JStr (str ''No content available to explain.''),
                  explanationLoading := False\<rparr>)
      else
        (case be (summarize_request s a) of
           Rejected e \<Rightarrow>
             Normal (s\<lparr>requests := requests s @ [summarize_request s a],
                       console := console s @ [(str ''Error getting explanation:'', e)],
                       explanation := JStr (str ''Failed to generate explanation. Please try again.''),
                       explanationLoading := False\<rparr>)
         | Resolved None \<Rightarrow>
             Normal (s\<lparr>requests := requests s @ [summarize_request s a],
                       console := console s @ [(str ''Error getting explanation:'', TypeError)],
                       explanation := JStr (str ''Failed to generate explanation. Please try again.''),
                       explanationLoading := False\<rparr>)
         | Resolved (Some d) \<Rightarrow>
             Normal (s\<lparr>requests := requests s @ [summarize_request s a],
                       explanation := get_prop d ''summary'',
                       explanationLoading := False\<rparr>)))"
  using assms
  by (simp add: handleExplain_def try_catch_finally_def handleExplain_try_def
      handleExplain_catch_def handleExplain_finally_def axios_post_def summarize_request_def
      getItem_def
      split: response.split option.split)

lemma explain_requests_eq:
  assumes "activeArticle s = Some a"
  shows "explain_requests be s =
     (if truthy (contentToExplain a) then [summarize_request s a] else [])"
  using assms
  by (simp add: explain_requests_def handleExplain_unfold split: response.split option.split)

lemma explain_requests_None:
  assumes "activeArticle s = None"
  shows "explain_requests be s = []"
  using assms by (simp add: explain_requests_def handleExplain_def)

lemma handleQuerySubmit_unfold:
  assumes "activeArticle s = Some a" and "trim (query s) \<noteq> []"
  shows "handleQuerySubmit be s =
     (case be (ask_request s a) of
        Rejected e \<Rightarrow>
          Normal (s\<lparr>defaultPrevented := True,
                    requests := requests s @ [ask_request s a],
                    console := console s @ [(str ''Error getting answer:'', e)],
                    queryAnswer := JStr (str ''Failed to get an answer. Please try again.''),
                    queryLoading := False\<rparr>)
      | Resolved None \<Rightarrow>
          Normal (s\<lparr>defaultPrevented := True,
                    requests := requests s @ [ask_request s a],
                    console := console s @ [(str ''Error getting answer:'', TypeError)],
                    queryAnswer := JStr (str ''Failed to get an answer. Please try again.''),
                    queryLoading := False\<rparr>)
      | Resolved (Some d) \<Rightarrow>
          Normal (s\<lparr>defaultPrevented := True,
                    requests := requests s @ [ask_request s a],
                    queryAnswer := get_prop d ''answer'',
                    queryLoading := False\<rparr>))"
  using assms
  by (simp add: handleQuerySubmit_def Let_def try_catch_finally_def handleQuerySubmit_try_def
      handleQuerySubmit_catch_def handleQuerySubmit_finally_def axios_post_def ask_request_def
      split: response.split option.split)

lemma handleQuerySubmit_blank:
  assumes "trim (query s) = []"
  shows "handleQuerySubmit be s = Return (s\<lparr>defaultPrevented := True\<rparr>)"
  using assms by (simp add: handleQuerySubmit_def Let_def)

lemma handleQuerySubmit_no_article:
  assumes "activeArticle s = None"
  shows "handleQuerySubmit be s = Return (s\<lparr>defaultPrevented := True\<rparr>)"
  using assms by (simp add: handleQuerySubmit_def Let_def)

lemma handleFeedback_unfold:
  "handleFeedback be captured inflight articleId type s =
     (case be (feedback_request articleId type) of
        Rejected e \<Rightarrow>
          Normal ((inflight (s\<lparr>requests := requests s @ [feedback_request articleId type]\<rparr>))
                    \<lparr>console :=
                       console (inflight
                         (s\<lparr>requests := requests s @ [feedback_request articleId type]\<rparr>)) @
                       [(str ''Error providing feedback:'', e)]\<rparr>)
      | Resolved d \<Rightarrow>
          Normal ((inflight (s\<lparr>requests := requests s @ [feedback_request articleId type]\<rparr>))
                    \<lparr>articles := map (mark_feedback articleId type) captured\<rparr>))"
  by (simp add: handleFeedback_def try_catch_def handleFeedback_try_def handleFeedback_catch_def
      axios_post_def split: response.split)

lemma mset_place: "mset (place w p a xs) = add_mset a (mset xs)"
  by (induction xs) simp_all

lemma mset_rank: "mset (rank w p xs) = mset xs"
  by (induction xs) (simp_all add: rank_def mset_place)

lemma truthy_contentToExplain:
  "truthy (contentToExplain a) \<longleftrightarrow> truthy (content a) \<or> truthy (summary a)"
  by (simp add: contentToExplain_def js_or_def)

lemma handleExplain_fulfils: "\<not> rejects (handleExplain be s)"
proof (cases "activeArticle s")
  case None
  then show ?thesis by (simp add: handleExplain_def)
next
  case (Some a)
  then show ?thesis
    by (simp add: handleExplain_unfold split: response.split option.split)
qed

lemma handleQuerySubmit_fulfils: "\<not> rejects (handleQuerySubmit be s)"
proof (cases "activeArticle s")
  case None
  then show ?thesis by (simp add: handleQuerySubmit_no_article)
next
  case (Some a)
  show ?thesis
  proof (cases "trim (query s) = []")
    case True
    then show ?thesis by (simp add: handleQuerySubmit_blank)
  next
    case False
    with Some show ?thesis
      by (simp add: handleQuerySubmit_unfold split: response.split option.split)
  qed
qed

lemma trim_why: "trim (str ''why?'') = str ''why?''"
  by (simp add: trim_def str_def is_white_space_def)





lemma query_requests_eq:
  "query_requests be s =
     (case activeArticle s of
        None \<Rightarrow> []
      | Some a \<Rightarrow> if trim (query s) = [] then [] else [ask_request s a])"
proof (cases "activeArticle s")
  case None
  then show ?thesis
    by (simp add: query_requests_def handleQuerySubmit_no_article)
next
  case (Some a)
  show ?thesis
  proof (cases "trim (query s) = []")
    case True
    with Some show ?thesis
      by (simp add: query_requests_def handleQuerySubmit_blank)
  next
    case False
    with Some show ?thesis
      by (simp add: query_requests_def handleQuerySubmit_unfold
          split: response.split option.split)
  qed
qed

lemma ask_request_no_knowledge_level:
  "get_prop (snd (ask_request s a)) ''knowledge_level'' = JUndefined"
  by (simp add: ask_request_def ask_payload_def get_prop_def)

section \<open>Content resolution\<close>

text \<open>
  Claim C1. Content resolution prefers full content over summary: the text handed to
  the summarize request is the article's content when that is present (truthy),
  otherwise its summary, and when neither is present no request is made at all and the
  explanation is the fixed message, so no empty text ever reaches generation.
\<close>

theorem resolution_prefers_content:
  assumes "activeArticle s = Some a"
  shows "(case resolve a of
            FULL t \<Rightarrow>
              t = content a \<and> truthy t \<and> contentToExplain a = t \<and>
              explain_requests be s =
                [(ArticlesSummarize,
                  [(''content'', t),
                   (''knowledge_level'',
                    js_or (getItem s ''knowledgeLevel'') (JStr (str ''Intermediate'')))])]
          | SUMMARY t \<Rightarrow>
              t = summary a \<and> truthy t \<and> \<not> truthy (content a) \<and> contentToExplain a = t \<and>
              explain_requests be s =
                [(ArticlesSummarize,
                  [(''content'', t),
                   (''knowledge_level'',
                    js_or (getItem s ''knowledgeLevel'') (JStr (str ''Intermediate'')))])]
          | ABSENT \<Rightarrow>
              \<not> truthy (content a) \<and> \<not> truthy (summary a) \<and>
              explain_requests be s = [] \<and>
              explanation (final_state (handleExplain be s)) =
                JStr (str ''No content available to explain.''))"
proof (cases "truthy (content a)")
  case True
  then show ?thesis
    using assms
    by (simp add: resolve_def explain_requests_eq truthy_contentToExplain
        summarize_request_def contentToExplain_def js_or_def)
next
  case False
  then show ?thesis
    using assms
    by (simp add: resolve_def explain_requests_eq truthy_contentToExplain
        summarize_request_def contentToExplain_def js_or_def handleExplain_unfold)
qed

theorem resolution_prefers_content_witness:
  "activeArticle (sample_state (Some sample_full) []) = Some sample_full \<and>
   resolve sample_full = FULL (JStr (str ''body'')) \<and>
   explain_requests backend_up (sample_state (Some sample_full) []) =
     [(ArticlesSummarize,
       [(''content'', JStr (str ''body'')), (''knowledge_level'', JStr (str ''Intermediate''))])]"
proof -
  have h: "activeArticle (sample_state (Some sample_full) []) = Some sample_full"
    by (simp add: sample_state_def)
  have r: "resolve sample_full = FULL (JStr (str ''body''))"
    by (simp add: resolve_def sample_full_def str_def)
  have k: "js_or (getItem (sample_state (Some sample_full) []) ''knowledgeLevel'')
             (JStr (str ''Intermediate'')) = JStr (str ''Intermediate'')"
    by (simp add: js_or_def getItem_def sample_state_def)
  show ?thesis
    using h r k resolution_prefers_content [OF h, of backend_up] by simp
qed

text \<open>
  Claim C8. Content resolution is deterministic: two calls on articles with the same
  content and summary select the same kind and the same text, and post the same text,
  whatever else differs between the two runs (the rest of the article, the page
  state, localStorage, the backend).
\<close>

theorem resolution_deterministic:
  assumes "activeArticle s = Some a"
    and "activeArticle s' = Some a'"
    and "content a = content a'"
    and "summary a = summary a'"
  shows "resolve a = resolve a' \<and>
         contentToExplain a = contentToExplain a' \<and>
         map (\<lambda>r. get_prop (snd r) ''content'') (explain_requests be s) =
         map (\<lambda>r. get_prop (snd r) ''content'') (explain_requests be' s')"
  using assms
  by (simp add: resolve_def contentToExplain_def explain_requests_eq summarize_request_def
      get_prop_def)

theorem resolution_deterministic_witness:
  "activeArticle (sample_state (Some sample_full) []) = Some sample_full \<and>
   activeArticle ((sample_state (Some (sample_full\<lparr>article_id := JNull, feedback := JUndefined\<rparr>))
        (str ''why?''))\<lparr>localStorage := (\<lambda>k. Some (str ''Expert''))\<rparr>) =
     Some (sample_full\<lparr>article_id := JNull, feedback := JUndefined\<rparr>) \<and>
   content sample_full = content (sample_full\<lparr>article_id := JNull, feedback := JUndefined\<rparr>) \<and>
   summary sample_full = summary (sample_full\<lparr>article_id := JNull, feedback := JUndefined\<rparr>) \<and>
   resolve sample_full = resolve (sample_full\<lparr>article_id := JNull, feedback := JUndefined\<rparr>) \<and>
   map (\<lambda>r. get_prop (snd r) ''content'')
     (explain_requests backend_up (sample_state (Some sample_full) [])) =
   map (\<lambda>r. get_prop (snd r) ''content'')
     (explain_requests backend_down
        ((sample_state (Some (sample_full\<lparr>article_id := JNull, feedback := JUndefined\<rparr>))
            (str ''why?''))\<lparr>localStorage := (\<lambda>k. Some (str ''Expert''))\<rparr>))"
proof -
  let ?a' = "sample_full\<lparr>article_id := JNull, feedback := JUndefined\<rparr>"
  let ?s' = "(sample_state (Some ?a') (str ''why?''))\<lparr>localStorage := (\<lambda>k. Some (str ''Expert''))\<rparr>"
  have h1: "activeArticle (sample_state (Some sample_full) []) = Some sample_full"
    by (simp add: sample_state_def)
  have h2: "activeArticle ?s' = Some ?a'"
    by (simp add: sample_state_def)
  have h3: "content sample_full = content ?a'"
    by simp
  have h4: "summary sample_full = summary ?a'"
    by simp
  show ?thesis
    using h1 h2 h3 h4
      resolution_deterministic [OF h1 h2 h3 h4, of backend_up backend_down]
    by simp
qed

text \<open>
  Claim C9. An article whose content is the empty string and whose summary is a
  non-empty string resolves to its summary: the empty string is falsy, so
  \<open>content || summary\<close> yields the summary, which is what is posted.
\<close>

theorem empty_content_selects_summary:
  assumes "activeArticle s = Some a"
    and "content a = JStr []"
    and "summary a = JStr t"
    and "t \<noteq> []"
  shows "contentToExplain a = JStr t \<and>
         resolve a = SUMMARY (JStr t) \<and>
         explain_requests be s =
           [(ArticlesSummarize,
             [(''content'', JStr t),
              (''knowledge_level'',
               js_or (getItem s ''knowledgeLevel'') (JStr (str ''Intermediate'')))])]"
  using assms
  by (simp add: resolve_def contentToExplain_def js_or_def explain_requests_eq
      summarize_request_def)

theorem empty_content_selects_summary_witness:
  "activeArticle (sample_state (Some sample_summary_only) []) = Some sample_summary_only \<and>
   content sample_summary_only = JStr [] \<and>
   summary sample_summary_only = JStr (str ''brief'') \<and>
   str ''brief'' \<noteq> [] \<and>
   contentToExplain sample_summary_only = JStr (str ''brief'') \<and>
   resolve sample_summary_only = SUMMARY (JStr (str ''brief'')) \<and>
   explain_requests backend_up (sample_state (Some sample_summary_only) []) =
     [(ArticlesSummarize,
       [(''content'', JStr (str ''brief'')), (''knowledge_level'', JStr (str ''Intermediate''))])]"
proof -
  have h1: "activeArticle (sample_state (Some sample_summary_only) []) = Some sample_summary_only"
    by (simp add: sample_state_def)
  have h2: "content sample_summary_only = JStr []"
    by (simp add: sample_summary_only_def)
  have h3: "summary sample_summary_only = JStr (str ''brief'')"
    by (simp add: sample_summary_only_def)
  have h4: "str ''brief'' \<noteq> []"
    by (simp add: str_def)
  have k: "js_or (getItem (sample_state (Some sample_summary_only) []) ''knowledgeLevel'')
             (JStr (str ''Intermediate'')) = JStr (str ''Intermediate'')"
    by (simp add: js_or_def getItem_def sample_state_def)
  show ?thesis
    using h1 h2 h3 h4 k empty_content_selects_summary [OF h1 h2 h3 h4, of backend_up]
    by simp
qed

section \<open>Explaining an article\<close>

text \<open>
  Claim C2. For an article with neither content nor summary, \<open>handleExplain\<close>
  returns early with the explanation set to the fixed message
  "No content available to explain." and issues no request: the list of requests is
  the one it started with.
\<close>

theorem absent_content_short_circuits:
  assumes "activeArticle s = Some a"
    and "\<not> truthy (content a)"
    and "\<not> truthy (summary a)"
  shows "handleExplain be s =
           Return (s\<lparr>explanation := JStr (str ''No content available to explain.''),
                     explanationLoading := False\<rparr>) \<and>
         requests (final_state (handleExplain be s)) = requests s \<and>
         explain_requests be s = []"
  using assms
  by (simp add: handleExplain_unfold explain_requests_eq truthy_contentToExplain)

theorem absent_content_short_circuits_witness:
  "activeArticle (sample_state (Some sample_bare) []) = Some sample_bare \<and>
   \<not> truthy (content sample_bare) \<and> \<not> truthy (summary sample_bare) \<and>
   explanation (final_state (handleExplain backend_up (sample_state (Some sample_bare) []))) =
     JStr (str ''No content available to explain.'') \<and>
   requests (final_state (handleExplain backend_up (sample_state (Some sample_bare) []))) = []"
proof -
  have h1: "activeArticle (sample_state (Some sample_bare) []) = Some sample_bare"
    by (simp add: sample_state_def)
  have h2: "\<not> truthy (content sample_bare)"
    by (simp add: sample_bare_def)
  have h3: "\<not> truthy (summary sample_bare)"
    by (simp add: sample_bare_def)
  have r: "requests (sample_state (Some sample_bare) []) = []"
    by (simp add: sample_state_def)
  show ?thesis
    using h1 h2 h3 r absent_content_short_circuits [OF h1 h2 h3, of backend_up] by simp
qed

text \<open>
  Claim C10, as stated, fails for the ask request: it is a generation request too, and
  its payload, here \<open>query\<close> and \<open>article_id\<close>, has no \<open>knowledge_level\<close>
  property at all.
\<close>

theorem ask_request_without_knowledge_level_counterexample:
  "query_requests backend_up (sample_state (Some sample_full) (str ''why?'')) =
     [(ArticlesAsk, [(''query'', JStr (str ''why?'')), (''article_id'', JStr (str ''a1''))])] \<and>
   get_prop [(''query'', JStr (str ''why?'')), (''article_id'', JStr (str ''a1''))]
     ''knowledge_level'' = JUndefined"
proof -
  have "trim (query (sample_state (Some sample_full) (str ''why?''))) \<noteq> []"
    by (simp add: sample_state_def trim_why) (simp add: str_def)
  then have "query_requests backend_up (sample_state (Some sample_full) (str ''why?'')) =
      [ask_request (sample_state (Some sample_full) (str ''why?'')) sample_full]"
    by (simp add: query_requests_eq) (simp add: sample_state_def)
  then show ?thesis
    by (simp add: ask_request_def ask_payload_def sample_state_def sample_full_def get_prop_def)
      (simp add: str_def)
qed

text \<open>
  Claim C10, amended. The knowledge level defaults to "Intermediate" where none is
  given: every summarize request carries the level stored in localStorage, or
  "Intermediate" when nothing (or the empty string) is stored, so the field is never
  empty; the onboarding wizard starts at "Intermediate"; and a row of table
  \<open>users\<close> inserted without a knowledge level holds 'Intermediate'. An ask request
  carries no knowledge level.
\<close>

theorem knowledge_level_defaults:
  "(\<forall>r\<in>set (explain_requests be s).
      get_prop (snd r) ''knowledge_level'' =
        (case localStorage s ''knowledgeLevel'' of
           None \<Rightarrow> JStr (str ''Intermediate'')
         | Some v \<Rightarrow> if v = [] then JStr (str ''Intermediate'') else JStr v) \<and>
      truthy (get_prop (snd r) ''knowledge_level'')) \<and>
   (\<forall>r\<in>set (query_requests be s). get_prop (snd r) ''knowledge_level'' = JUndefined) \<and>
   knowledgeLevel OnboardingPage_init = str ''Intermediate'' \<and>
   users_knowledge_level None = Inr (Some ''Intermediate'')"
proof -
  have k: "truthy (JStr (str ''Intermediate''))"
    by (simp add: str_def)
  have "\<forall>r\<in>set (explain_requests be s).
      get_prop (snd r) ''knowledge_level'' =
        (case localStorage s ''knowledgeLevel'' of
           None \<Rightarrow> JStr (str ''Intermediate'')
         | Some v \<Rightarrow> if v = [] then JStr (str ''Intermediate'') else JStr v) \<and>
      truthy (get_prop (snd r) ''knowledge_level'')"
  proof (cases "activeArticle s")
    case None
    then show ?thesis by (simp add: explain_requests_None)
  next
    case (Some a)
    then show ?thesis
      using k
      by (simp add: explain_requests_eq summarize_request_def get_prop_def js_or_def
          getItem_def split: option.split)
  qed
  moreover have "\<forall>r\<in>set (query_requests be s).
      get_prop (snd r) ''knowledge_level'' = JUndefined"
  proof (cases "activeArticle s")
    case None
    then show ?thesis by (simp add: query_requests_eq)
  next
    case (Some a)
    then show ?thesis
      by (cases "trim (query s) = []")
        (simp_all add: query_requests_eq ask_request_no_knowledge_level)
  qed
  moreover have "knowledgeLevel OnboardingPage_init = str ''Intermediate''"
    by (simp add: OnboardingPage_init_def)
  moreover have "users_knowledge_level None = Inr (Some ''Intermediate'')"
    by (simp add: users_knowledge_level_def varchar_def)
  ultimately show ?thesis
    by blast
qed

theorem knowledge_level_defaults_witness:
  "summarize_request (sample_state (Some sample_full) (str ''why?'')) sample_full
     \<in> set (explain_requests backend_up (sample_state (Some sample_full) (str ''why?''))) \<and>
   ask_request (sample_state (Some sample_full) (str ''why?'')) sample_full
     \<in> set (query_requests backend_up (sample_state (Some sample_full) (str ''why?''))) \<and>
   localStorage (sample_state (Some sample_full) (str ''why?'')) ''knowledgeLevel'' = None \<and>
   get_prop (snd (summarize_request (sample_state (Some sample_full) (str ''why?'')) sample_full))
     ''knowledge_level'' = JStr (str ''Intermediate'') \<and>
   get_prop (snd (ask_request (sample_state (Some sample_full) (str ''why?'')) sample_full))
     ''knowledge_level'' = JUndefined"
proof -
  let ?s = "sample_state (Some sample_full) (str ''why?'')"
  have a: "activeArticle ?s = Some sample_full"
    by (simp add: sample_state_def)
  have t: "truthy (contentToExplain sample_full)"
    by (simp add: contentToExplain_def js_or_def sample_full_def str_def)
  have q: "trim (query ?s) \<noteq> []"
    by (simp add: sample_state_def trim_why) (simp add: str_def)
  have h: "summarize_request ?s sample_full \<in> set (explain_requests backend_up ?s)"
    using a t by (simp add: explain_requests_eq)
  have g: "ask_request ?s sample_full \<in> set (query_requests backend_up ?s)"
    using a q by (simp add: query_requests_eq)
  have l: "localStorage ?s ''knowledgeLevel'' = None"
    by (simp add: sample_state_def)
  show ?thesis
    using h g l knowledge_level_defaults [of backend_up ?s]
    by auto
qed

section \<open>Asking a question\<close>

text \<open>
  Claim C3. A query that is empty or consists of white space only is rejected before
  any request: \<open>handleQuerySubmit\<close> returns at once, with no POST issued and the
  answer left as it was (in particular, not set to the failure message).
\<close>

theorem blank_query_rejected:
  assumes "\<forall>c\<in>set (query s). is_white_space c"
  shows "handleQuerySubmit be s = Return (s\<lparr>defaultPrevented := True\<rparr>) \<and>
         requests (final_state (handleQuerySubmit be s)) = requests s \<and>
         query_requests be s = [] \<and>
         queryAnswer (final_state (handleQuerySubmit be s)) = queryAnswer s"
proof -
  from assms have "trim (query s) = []"
    by (simp only: trim_Nil_iff)
  then show ?thesis
    by (simp add: handleQuerySubmit_blank query_requests_def)
qed

theorem blank_query_rejected_witness:
  "query (sample_state (Some sample_full) [0x20, 0x09, 0x0A]) = [0x20, 0x09, 0x0A] \<and>
   is_white_space 0x20 \<and> is_white_space 0x09 \<and> is_white_space 0x0A \<and>
   requests (final_state (handleQuerySubmit backend_up
      (sample_state (Some sample_full) [0x20, 0x09, 0x0A]))) = [] \<and>
   queryAnswer (final_state (handleQuerySubmit backend_up
      (sample_state (Some sample_full) [0x20, 0x09, 0x0A]))) = JStr []"
proof -
  have h: "\<forall>c\<in>set (query (sample_state (Some sample_full) [0x20, 0x09, 0x0A])). is_white_space c"
    by (simp add: sample_state_def is_white_space_def)
  have r: "requests (sample_state (Some sample_full) [0x20, 0x09, 0x0A]) = []"
    "queryAnswer (sample_state (Some sample_full) [0x20, 0x09, 0x0A]) = JStr []"
    by (simp_all add: sample_state_def)
  have w: "is_white_space 0x20" "is_white_space 0x09" "is_white_space 0x0A"
    by (simp_all add: is_white_space_def)
  have q: "query (sample_state (Some sample_full) [0x20, 0x09, 0x0A]) = [0x20, 0x09, 0x0A]"
    by (simp add: sample_state_def)
  show ?thesis
    using w q r blank_query_rejected [OF h, of backend_up] by simp
qed

text \<open>
  Claim C5. The article identifier takes precedence over the context text: with a
  truthy \<open>id\<close> the payload of the ask request is exactly \<open>query\<close> and
  \<open>article_id\<close>, without \<open>context\<close>, even when the article has content; only
  without an identifier is \<open>context\<close> sent, and then it is the content, else the
  summary.
\<close>

theorem identifier_takes_precedence:
  assumes "activeArticle s = Some a"
    and "trim (query s) \<noteq> []"
  shows "query_requests be s = [(ArticlesAsk, ask_payload (query s) a)] \<and>
         (truthy (article_id a) \<longrightarrow>
            ask_payload (query s) a =
              [(''query'', JStr (query s)), (''article_id'', article_id a)] \<and>
            map_of (ask_payload (query s) a) ''context'' = None) \<and>
         (\<not> truthy (article_id a) \<longrightarrow>
            map_of (ask_payload (query s) a) ''article_id'' = None \<and>
            map_of (ask_payload (query s) a) ''context'' =
              (if truthy (content a) then Some (content a)
               else if truthy (summary a) then Some (summary a)
               else None))"
proof -
  have "query_requests be s = [(ArticlesAsk, ask_payload (query s) a)]"
    using assms
    by (simp add: query_requests_def handleQuerySubmit_unfold ask_request_def
        split: response.split option.split)
  then show ?thesis
    by (simp add: ask_payload_def)
qed

theorem identifier_takes_precedence_witness:
  "activeArticle (sample_state (Some sample_full) (str ''why?'')) = Some sample_full \<and>
   trim (query (sample_state (Some sample_full) (str ''why?''))) \<noteq> [] \<and>
   truthy (article_id sample_full) \<and> truthy (content sample_full) \<and>
   query_requests backend_up (sample_state (Some sample_full) (str ''why?'')) =
     [(ArticlesAsk, [(''query'', JStr (str ''why?'')), (''article_id'', JStr (str ''a1''))])]"
proof -
  let ?s = "sample_state (Some sample_full) (str ''why?'')"
  have h: "activeArticle ?s = Some sample_full"
    by (simp add: sample_state_def)
  have q: "trim (query ?s) \<noteq> []"
    by (simp add: sample_state_def trim_why) (simp add: str_def)
  have t: "truthy (article_id sample_full)" "truthy (content sample_full)"
    by (simp_all add: sample_full_def str_def)
  have v: "query ?s = str ''why?''" "article_id sample_full = JStr (str ''a1'')"
    by (simp_all add: sample_state_def sample_full_def)
  show ?thesis
    using h q t v identifier_takes_precedence [OF h q, of backend_up] by simp
qed

text \<open>
  Claim C4. When the request to the backend is rejected, the explanation (or the
  answer) is the fixed failure message and the error is logged; neither handler ever
  rejects its promise, whatever the backend does; and the loading flag is false again
  whenever the handler got as far as setting it.
\<close>

theorem backend_failure_reported:
  assumes "activeArticle s = Some a"
  shows "(truthy (contentToExplain a) \<and> be (summarize_request s a) = Rejected e \<longrightarrow>
            explanation (final_state (handleExplain be s)) =
              JStr (str ''Failed to generate explanation. Please try again.'') \<and>
            console (final_state (handleExplain be s)) =
              console s @ [(str ''Error getting explanation:'', e)]) \<and>
         (trim (query s) \<noteq> [] \<and> be (ask_request s a) = Rejected e \<longrightarrow>
            queryAnswer (final_state (handleQuerySubmit be s)) =
              JStr (str ''Failed to get an answer. Please try again.'') \<and>
            console (final_state (handleQuerySubmit be s)) =
              console s @ [(str ''Error getting answer:'', e)]) \<and>
         \<not> rejects (handleExplain be s) \<and>
         \<not> rejects (handleQuerySubmit be s) \<and>
         \<not> explanationLoading (final_state (handleExplain be s)) \<and>
         (trim (query s) \<noteq> [] \<longrightarrow> \<not> queryLoading (final_state (handleQuerySubmit be s)))"
proof -
  have 1: "truthy (contentToExplain a) \<and> be (summarize_request s a) = Rejected e \<longrightarrow>
            explanation (final_state (handleExplain be s)) =
              JStr (str ''Failed to generate explanation. Please try again.'') \<and>
            console (final_state (handleExplain be s)) =
              console s @ [(str ''Error getting explanation:'', e)]"
    using assms by (simp add: handleExplain_unfold)
  have 2: "trim (query s) \<noteq> [] \<and> be (ask_request s a) = Rejected e \<longrightarrow>
            queryAnswer (final_state (handleQuerySubmit be s)) =
              JStr (str ''Failed to get an answer. Please try again.'') \<and>
            console (final_state (handleQuerySubmit be s)) =
              console s @ [(str ''Error getting answer:'', e)]"
    using assms by (simp add: handleQuerySubmit_unfold)
  have 3: "\<not> explanationLoading (final_state (handleExplain be s))"
    using assms by (simp add: handleExplain_unfold split: response.split option.split)
  have 4: "trim (query s) \<noteq> [] \<longrightarrow> \<not> queryLoading (final_state (handleQuerySubmit be s))"
    using assms by (simp add: handleQuerySubmit_unfold split: response.split option.split)
  from 1 2 3 4 handleExplain_fulfils handleQuerySubmit_fulfils show ?thesis
    by blast
qed

theorem backend_failure_reported_witness:
  "activeArticle (sample_state (Some sample_full) (str ''why?'')) = Some sample_full \<and>
   truthy (contentToExplain sample_full) \<and>
   trim (query (sample_state (Some sample_full) (str ''why?''))) \<noteq> [] \<and>
   explanation (final_state (handleExplain backend_down
       (sample_state (Some sample_full) (str ''why?'')))) =
     JStr (str ''Failed to generate explanation. Please try again.'') \<and>
   queryAnswer (final_state (handleQuerySubmit backend_down
       (sample_state (Some sample_full) (str ''why?'')))) =
     JStr (str ''Failed to get an answer. Please try again.'') \<and>
   \<not> rejects (handleExplain backend_down (sample_state (Some sample_full) (str ''why?''))) \<and>
   \<not> rejects (handleQuerySubmit backend_down (sample_state (Some sample_full) (str ''why?''))) \<and>
   \<not> explanationLoading (final_state (handleExplain backend_down
       (sample_state (Some sample_full) (str ''why?'')))) \<and>
   \<not> queryLoading (final_state (handleQuerySubmit backend_down
       (sample_state (Some sample_full) (str ''why?''))))"
proof -
  let ?s = "sample_state (Some sample_full) (str ''why?'')"
  have h: "activeArticle ?s = Some sample_full"
    by (simp add: sample_state_def)
  have t: "truthy (contentToExplain sample_full)"
    by (simp add: contentToExplain_def js_or_def sample_full_def str_def)
  have q: "trim (query ?s) \<noteq> []"
    by (simp add: sample_state_def trim_why) (simp add: str_def)
  have b: "backend_down (summarize_request ?s sample_full) = Rejected (AxiosError (str ''Network Error''))"
    "backend_down (ask_request ?s sample_full) = Rejected (AxiosError (str ''Network Error''))"
    by (simp_all add: backend_down_def)
  show ?thesis
    using h t q b
      backend_failure_reported [OF h, of backend_down "AxiosError (str ''Network Error'')"]
    by simp
qed

section \<open>Feedback\<close>

text \<open>
  The list written by \<open>handleFeedback\<close> is the updated copy of the one its render
  captured. Here a "like" for a3 was recorded while the request for a1 was pending;
  when that request settles, a1 shows "dislike" and the entry of a3 is back to what
  the render had.
\<close>

lemma handleFeedback_writes_captured_copy:
  "feedback_of
     (final_state
        (handleFeedback backend_up (articles (sample_state None []))
           (\<lambda>s. s\<lparr>articles :=
                    map (mark_feedback (JStr (str ''a3'')) (JStr (str ''like''))) (articles s)\<rparr>)
           (JStr (str ''a1'')) (JStr (str ''dislike'')) (sample_state None [])))
     (JStr (str ''a3'')) = [JUndefined]"
  by (simp add: handleFeedback_unfold backend_up_def feedback_of_def feedback_entries_def
      mark_feedback_def sample_state_def sample_full_def sample_summary_only_def
      sample_bare_def strict_eq_def str_def)



section \<open>Ranking\<close>

text \<open>
  Claim C6. For every preference snapshot and every list of candidates, the output of
  \<open>rank\<close> is a permutation of its input: same articles with the same
  multiplicities, hence the same length; an article with no interest overlap is
  still in the output.
\<close>

theorem rank_is_permutation:
  "mset (rank w p xs) = mset xs \<and>
   length (rank w p xs) = length xs \<and>
   (\<forall>a\<in>set xs. interest_overlap p a = 0 \<longrightarrow> a \<in> set (rank w p xs))"
proof -
  have m: "mset (rank w p xs) = mset xs"
    by (rule mset_rank)
  then have "set (rank w p xs) = set xs"
    by (rule mset_eq_setD)
  moreover from m have "length (rank w p xs) = length xs"
    by (rule mset_eq_length)
  ultimately show ?thesis
    using m by simp
qed

theorem rank_is_permutation_witness:
  "sample_article2 \<in> set [sample_article2, sample_article1] \<and>
   interest_overlap sample_user sample_article2 = 0 \<and>
   sample_article2 \<in> set (rank sample_weights sample_user [sample_article2, sample_article1]) \<and>
   mset (rank sample_weights sample_user [sample_article2, sample_article1]) =
     mset [sample_article2, sample_article1]"
proof -
  have h: "sample_article2 \<in> set [sample_article2, sample_article1]"
    by simp
  have z: "interest_overlap sample_user sample_article2 = 0"
    by (simp add: interest_overlap_def sample_article2_def)
  show ?thesis
    using h z rank_is_permutation [of sample_weights sample_user "[sample_article2, sample_article1]"]
    by blast
qed

end
